theory Spec2Isabelle
  imports Complex_Main "HOL-Library.AList" "HOL-Library.Sublist"
begin

section \<open>JavaScript values\<close>

text \<open>
  The adapter reads the backend's reply as an untyped value (\<^verbatim>\<open>data: any\<close>), so the
  model keeps the values JSON can produce, and \<^verbatim>\<open>undefined\<close> for a property that is
  not there. An object is the association list of its own properties.
\<close>

datatype js =
    JUndefined
  | JNull
  | JBool bool
  | JNum rat
  | JStr string
  | JArr "js list"
  | JObj "(string \<times> js) list"

datatype error = Error string | TypeError string | SyntaxError string

fun message :: "error \<Rightarrow> string" where
  "message (Error m) = m"
| "message (TypeError m) = m"
| "message (SyntaxError m) = m"

text \<open>Template literals print a non-negative integer in decimal.\<close>

definition digit_char :: "nat \<Rightarrow> char" where
  "digit_char d = ''0123456789'' ! d"

fun show_nat :: "nat \<Rightarrow> string" where
  "show_nat n = (if n < 10 then [digit_char n] else show_nat (n div 10) @ [digit_char (n mod 10)])"

declare show_nat.simps [simp del]

text \<open>\<^verbatim>\<open>Boolean(v)\<close>, the test of \<^verbatim>\<open>v ? a : b\<close> and of \<^verbatim>\<open>v || d\<close>.\<close>

fun truthy :: "js \<Rightarrow> bool" where
  "truthy JUndefined = False"
| "truthy JNull = False"
| "truthy (JBool b) = b"
| "truthy (JNum n) = (n \<noteq> 0)"
| "truthy (JStr s) = (s \<noteq> [])"
| "truthy (JArr xs) = True"
| "truthy (JObj kvs) = True"

fun nullish :: "js \<Rightarrow> bool" where
  "nullish JUndefined = True"
| "nullish JNull = True"
| "nullish v = False"

text \<open>\<^verbatim>\<open>v ?? d\<close>\<close>

definition nullish_or :: "js \<Rightarrow> js \<Rightarrow> js" where
  "nullish_or v d = (if nullish v then d else v)"

datatype key = Name string | Index nat

text \<open>
  Reading a property of a value that is neither \<^verbatim>\<open>null\<close> nor \<^verbatim>\<open>undefined\<close>. The
  names the adapter reads (choices, message, content, usage and the token counts) are
  nobody's inherited property, so only own properties, array elements and string
  characters answer.
\<close>

fun member :: "js \<Rightarrow> key \<Rightarrow> js" where
  "member (JObj kvs) (Name k) = (case map_of kvs k of None \<Rightarrow> JUndefined | Some v \<Rightarrow> v)"
| "member (JObj kvs) (Index i) =
     (case map_of kvs (show_nat i) of None \<Rightarrow> JUndefined | Some v \<Rightarrow> v)"
| "member (JArr xs) (Index i) = (if i < length xs then xs ! i else JUndefined)"
| "member (JStr s) (Index i) = (if i < length s then JStr [s ! i] else JUndefined)"
| "member v k = JUndefined"

text \<open>\<^verbatim>\<open>v?.k\<close> and \<^verbatim>\<open>v?.[i]\<close>\<close>

definition opt_get :: "js \<Rightarrow> key \<Rightarrow> js" where
  "opt_get v k = (if nullish v then JUndefined else member v k)"

section \<open>The canonical model\<close>

record blob =
  mimeType :: string
  blob_data :: string

record part_object =
  part_text :: "string option"
  inlineData :: "blob option"

text \<open>An element of \<^verbatim>\<open>parts\<close> is a part object or, before normalisation, a bare string.\<close>

datatype part = PartString string | PartObject part_object

record 'p content =
  c_role :: "string option"
  c_parts :: "'p list option"

record gen_config =
  temperature :: "rat option"
  topP :: "rat option"
  tools :: "js option"

record 'c generate_content_parameters =
  req_model :: "string option"
  req_contents :: 'c
  req_config :: "gen_config option"

text \<open>
  The part of a response holds whatever the backend sent as message content: the cast
  \<^verbatim>\<open>as GenerateContentResponse\<close> checks nothing.
\<close>

record response_part =
  rp_text :: js

record candidate =
  cand_content :: "response_part content"
  cand_index :: nat

record usage_metadata =
  promptTokenCount :: js
  candidatesTokenCount :: js
  totalTokenCount :: js

record generate_content_response =
  modelVersion :: string
  candidates :: "candidate list"
  usageMetadata :: usage_metadata

section \<open>The wire\<close>

record wire_message =
  wm_role :: string
  wm_content :: string

text \<open>
  The request body before \<^verbatim>\<open>JSON.stringify\<close>, field by field; a field that is
  \<^verbatim>\<open>undefined\<close> is \<open>None\<close> here and is left out of the text sent.
\<close>

record chat_body =
  cb_model :: string
  cb_messages :: "wire_message list"
  cb_temperature :: "rat option"
  cb_top_p :: "rat option"
  cb_tools :: "js option"
  cb_stream :: bool

record http_request =
  url :: string
  http_method :: string
  headers :: "(string \<times> string) list"
  body :: chat_body

text \<open>
  A reply as the platform presents it: \<^verbatim>\<open>resp.status\<close>, what \<^verbatim>\<open>resp.text()\<close> reads and
  what \<^verbatim>\<open>resp.json()\<close> parses (\<open>None\<close> when the body is not JSON).
\<close>

record http_response =
  status :: nat
  resp_text :: string
  resp_json :: "js option"

text \<open>\<^verbatim>\<open>resp.ok\<close> is the platform's test for a status from 200 to 299.\<close>

definition ok :: "http_response \<Rightarrow> bool" where
  "ok r = (200 \<le> status r \<and> status r \<le> 299)"

datatype fetch_outcome = Responds http_response | Rejects error

text \<open>
  The network is a parameter: it answers a request, given the requests sent before. The
  state threaded through the adapter is the list of requests sent so far.
\<close>

type_synonym network = "http_request list \<Rightarrow> http_request \<Rightarrow> fetch_outcome"

definition fetch :: "network \<Rightarrow> http_request \<Rightarrow> http_request list \<Rightarrow> fetch_outcome \<times> http_request list" where
  "fetch net rq sent = (net sent rq, sent @ [rq])"

section \<open>OpenAICompatibleContentGenerator\<close>

text \<open>
  The options as a call site can pass them: \<^verbatim>\<open>config.baseUrl!\<close> and \<^verbatim>\<open>config.apiKey!\<close>
  are unchecked at run time, so either may be \<^verbatim>\<open>undefined\<close>.
\<close>

record openai_compatible_options =
  opt_baseUrl :: "string option"
  opt_apiKey :: "string option"
  opt_model :: string
  opt_httpHeaders :: "(string \<times> string) list option"

record adapter =
  baseUrl :: string
  apiKey :: "string option"
  defaultModel :: string
  adapter_headers :: "(string \<times> string) list"

text \<open>\<^verbatim>\<open>s.replace(/\/$/, '')\<close>: one slash at the very end of the string goes.\<close>

definition strip_trailing_slash :: "string \<Rightarrow> string" where
  "strip_trailing_slash s = (if s \<noteq> [] \<and> last s = CHR ''/'' then butlast s else s)"

text \<open>\<^verbatim>\<open>`${v}`\<close> for a string that may be \<^verbatim>\<open>undefined\<close>.\<close>

definition interpolate :: "string option \<Rightarrow> string" where
  "interpolate v = (case v of None \<Rightarrow> ''undefined'' | Some s \<Rightarrow> s)"

text \<open>Object spread: a key already there keeps its place and takes the new value.\<close>

definition spread :: "(string \<times> string) list \<Rightarrow> (string \<times> string) list \<Rightarrow> (string \<times> string) list" where
  "spread base extra = foldl (\<lambda>acc kv. AList.update (fst kv) (snd kv) acc) base extra"

definition new_OpenAICompatibleContentGenerator :: "openai_compatible_options \<Rightarrow> error + adapter" where
  "new_OpenAICompatibleContentGenerator opts =
     (case opt_baseUrl opts of
        None \<Rightarrow> Inl (TypeError ''Cannot read properties of undefined (reading 'replace')'')
      | Some u \<Rightarrow>
          Inr \<lparr> baseUrl = strip_trailing_slash u,
                apiKey = opt_apiKey opts,
                defaultModel = opt_model opts,
                adapter_headers =
                  spread [(''Content-Type'', ''application/json''),
                          (''Authorization'', ''Bearer '' @ interpolate (opt_apiKey opts))]
                         (case opt_httpHeaders opts of None \<Rightarrow> [] | Some hs \<Rightarrow> hs) \<rparr>)"

text \<open>\<^verbatim>\<open>xs.join(sep)\<close> on strings.\<close>

fun join :: "string \<Rightarrow> string list \<Rightarrow> string" where
  "join sep [] = []"
| "join sep [x] = x"
| "join sep (x # y # ys) = x @ sep @ join sep (y # ys)"

definition newline :: string where
  "newline = [CHR 0x0A]"

definition part_to_text :: "part \<Rightarrow> string" where
  "part_to_text p =
     (case p of
        PartString s \<Rightarrow> s
      | PartObject obj \<Rightarrow> (case part_text obj of None \<Rightarrow> [] | Some t \<Rightarrow> t))"

definition partsToText :: "part list \<Rightarrow> string" where
  "partsToText ps = join newline (filter (\<lambda>t. t \<noteq> []) (map part_to_text ps))"

definition convertContentsToOpenAIMessages :: "part content list \<Rightarrow> wire_message list" where
  "convertContentsToOpenAIMessages contents =
     map (\<lambda>c. \<lparr> wm_role = (if c_role c = Some ''model'' then ''assistant'' else ''user''),
                 wm_content = partsToText (case c_parts c of None \<Rightarrow> [] | Some ps \<Rightarrow> ps) \<rparr>)
         contents"

definition convertTools :: "js option \<Rightarrow> js option" where
  "convertTools ts = None"

definition fromOpenAIChatCompletion :: "js \<Rightarrow> string \<Rightarrow> generate_content_response" where
  "fromOpenAIChatCompletion data model =
     (let text = nullish_or
                   (opt_get (opt_get (opt_get (opt_get data (Name ''choices'')) (Index 0))
                                     (Name ''message''))
                            (Name ''content''))
                   (JStr []);
          content = \<lparr> c_role = Some ''model'',
                      c_parts = Some (if truthy text then [\<lparr> rp_text = text \<rparr>] else []) \<rparr>
      in \<lparr> modelVersion = model,
           candidates = [\<lparr> cand_content = content, cand_index = 0 \<rparr>],
           usageMetadata =
             \<lparr> promptTokenCount = opt_get (opt_get data (Name ''usage'')) (Name ''prompt_tokens''),
               candidatesTokenCount =
                 opt_get (opt_get data (Name ''usage'')) (Name ''completion_tokens''),
               totalTokenCount = opt_get (opt_get data (Name ''usage'')) (Name ''total_tokens'') \<rparr> \<rparr>)"

text \<open>
  \<^verbatim>\<open>toContents\<close> comes from another module and is a parameter here. The prompt id is
  accepted and not read.
\<close>

definition request_body :: "('c \<Rightarrow> part content list) \<Rightarrow> adapter \<Rightarrow> 'c generate_content_parameters \<Rightarrow> chat_body" where
  "request_body toContents self req =
     \<lparr> cb_model = (case req_model req of None \<Rightarrow> defaultModel self
                                        | Some m \<Rightarrow> if m \<noteq> [] then m else defaultModel self),
       cb_messages = convertContentsToOpenAIMessages (toContents (req_contents req)),
       cb_temperature = (case req_config req of None \<Rightarrow> None | Some c \<Rightarrow> temperature c),
       cb_top_p = (case req_config req of None \<Rightarrow> None | Some c \<Rightarrow> topP c),
       cb_tools = convertTools (case req_config req of None \<Rightarrow> None | Some c \<Rightarrow> tools c),
       cb_stream = False \<rparr>"

definition generateContent ::
  "network \<Rightarrow> ('c \<Rightarrow> part content list) \<Rightarrow> adapter \<Rightarrow> 'c generate_content_parameters \<Rightarrow> string
     \<Rightarrow> http_request list \<Rightarrow> (error + generate_content_response) \<times> http_request list" where
  "generateContent net toContents self req userPromptId sent =
     (let b = request_body toContents self req;
          (outcome, sent') = fetch net \<lparr> url = baseUrl self @ ''/chat/completions'',
                                         http_method = ''POST'',
                                         headers = adapter_headers self,
                                         body = b \<rparr> sent
      in case outcome of
           Rejects e \<Rightarrow> (Inl e, sent')
         | Responds resp \<Rightarrow>
             if \<not> ok resp
             then (Inl (Error (''OpenAI-compatible error '' @ show_nat (status resp) @ '': ''
                               @ resp_text resp)), sent')
             else (case resp_json resp of
                     None \<Rightarrow> (Inl (SyntaxError ''Unexpected token in JSON''), sent')
                   | Some data \<Rightarrow> (Inr (fromOpenAIChatCompletion data (cb_model b)), sent')))"

section \<open>generateContentStream\<close>

text \<open>
  The async generator \<^verbatim>\<open>gen\<close> has one \<^verbatim>\<open>yield\<close>. Calling \<^verbatim>\<open>generateContentStream\<close>
  only creates it; the call of \<^verbatim>\<open>generateContent\<close> happens at the first \<^verbatim>\<open>next()\<close>.
\<close>

datatype gen_state = SuspendedStart | SuspendedYield | Closed

record 'c generator =
  gen_self :: adapter
  gen_req :: "'c generate_content_parameters"
  gen_userPromptId :: string
  gen_at :: gen_state

datatype iter_result = Yielded generate_content_response | Done | Thrown error

definition generateContentStream ::
  "adapter \<Rightarrow> 'c generate_content_parameters \<Rightarrow> string \<Rightarrow> 'c generator" where
  "generateContentStream self req userPromptId =
     \<lparr> gen_self = self, gen_req = req, gen_userPromptId = userPromptId, gen_at = SuspendedStart \<rparr>"

definition gen_next ::
  "network \<Rightarrow> ('c \<Rightarrow> part content list) \<Rightarrow> 'c generator \<Rightarrow> http_request list
     \<Rightarrow> iter_result \<times> 'c generator \<times> http_request list" where
  "gen_next net toContents g sent =
     (case gen_at g of
        SuspendedStart \<Rightarrow>
          (case generateContent net toContents (gen_self g) (gen_req g) (gen_userPromptId g) sent of
             (Inl e, sent') \<Rightarrow> (Thrown e, g\<lparr>gen_at := Closed\<rparr>, sent')
           | (Inr r, sent') \<Rightarrow> (Yielded r, g\<lparr>gen_at := SuspendedYield\<rparr>, sent'))
      | SuspendedYield \<Rightarrow> (Done, g\<lparr>gen_at := Closed\<rparr>, sent)
      | Closed \<Rightarrow> (Done, g, sent))"

text \<open>
  \<^verbatim>\<open>for await (const r of stream)\<close>: the elements received, the error the loop ended
  with if any, and the requests sent. The fuel bounds the calls of \<^verbatim>\<open>next()\<close>;
  \<open>None\<close> means the loop was still running when it ran out.
\<close>

fun for_await ::
  "nat \<Rightarrow> network \<Rightarrow> ('c \<Rightarrow> part content list) \<Rightarrow> 'c generator \<Rightarrow> http_request list
     \<Rightarrow> (generate_content_response list \<times> error option \<times> http_request list) option" where
  "for_await 0 net toContents g sent = None"
| "for_await (Suc n) net toContents g sent =
     (case gen_next net toContents g sent of
        (Yielded r, g', sent') \<Rightarrow>
          (case for_await n net toContents g' sent' of
             None \<Rightarrow> None
           | Some (rs, e, s) \<Rightarrow> Some (r # rs, e, s))
      | (Done, g', sent') \<Rightarrow> Some ([], None, sent')
      | (Thrown e, g', sent') \<Rightarrow> Some ([], Some e, sent'))"

section \<open>What the specification says of message text\<close>

text \<open>
  The text of a message in the specification's words: the text-bearing parts in order,
  each part's text on its own line, a part with empty or no text contributing nothing.
\<close>

definition extractable_text :: "part \<Rightarrow> string option" where
  "extractable_text p = (case p of PartString s \<Rightarrow> Some s | PartObject obj \<Rightarrow> part_text obj)"

fun spec_text_lines :: "part list \<Rightarrow> string list" where
  "spec_text_lines [] = []"
| "spec_text_lines (p # ps) =
     (case extractable_text p of
        None \<Rightarrow> spec_text_lines ps
      | Some t \<Rightarrow> if t = [] then spec_text_lines ps else t # spec_text_lines ps)"

definition spec_message_text :: "part list \<Rightarrow> string" where
  "spec_message_text ps = butlast (concat (map (\<lambda>l. l @ newline) (spec_text_lines ps)))"

section \<open>Concrete inputs\<close>

definition contents_as_given :: "part content list \<Rightarrow> part content list" where
  "contents_as_given cs = cs"

definition example_adapter :: adapter where
  "example_adapter =
     \<lparr> baseUrl = ''https://api.example.test/v1'', apiKey = Some ''sk-test'',
       defaultModel = ''gpt-default'',
       adapter_headers = [(''Content-Type'', ''application/json''),
                          (''Authorization'', ''Bearer sk-test'')] \<rparr>"

definition text_part :: "string \<Rightarrow> part" where
  "text_part t = PartObject \<lparr> part_text = Some t, inlineData = None \<rparr>"

definition example_request :: "part content list generate_content_parameters" where
  "example_request =
     \<lparr> req_model = Some [],
       req_contents = [\<lparr> c_role = Some ''user'', c_parts = Some [text_part ''hi''] \<rparr>],
       req_config = None \<rparr>"

definition unauthorized_network :: network where
  "unauthorized_network sent rq =
     Responds \<lparr> status = 401, resp_text = ''invalid key'', resp_json = None \<rparr>"

definition answering_network :: network where
  "answering_network sent rq =
     Responds \<lparr> status = 200, resp_text = [],
                resp_json = Some (JObj [(''choices'',
                  JArr [JObj [(''message'', JObj [(''content'', JStr ''hello'')])]])]) \<rparr>"

definition example_http_request :: http_request where
  "example_http_request =
     \<lparr> url = ''https://api.example.test/v1/chat/completions'', http_method = ''POST'',
       headers = [(''Content-Type'', ''application/json''),
                  (''Authorization'', ''Bearer sk-test'')],
       body = \<lparr> cb_model = ''gpt-default'',
                cb_messages = [\<lparr> wm_role = ''user'', wm_content = ''hi'' \<rparr>],
                cb_temperature = None, cb_top_p = None, cb_tools = None, cb_stream = False \<rparr> \<rparr>"

section \<open>Configuration\<close>

text \<open>
  \<^verbatim>\<open>AuthType\<close> is a string enum, and a configuration may carry any string at run
  time, so a selector is a string and the members of the enum are names for eight of them.
\<close>

abbreviation LOGIN_WITH_GOOGLE :: string where "LOGIN_WITH_GOOGLE \<equiv> ''oauth-personal''"
abbreviation USE_GEMINI :: string where "USE_GEMINI \<equiv> ''gemini-api-key''"
abbreviation USE_VERTEX_AI :: string where "USE_VERTEX_AI \<equiv> ''vertex-ai''"
abbreviation CLOUD_SHELL :: string where "CLOUD_SHELL \<equiv> ''cloud-shell''"
abbreviation USE_OPENAI :: string where "USE_OPENAI \<equiv> ''openai''"
abbreviation USE_OPENROUTER :: string where "USE_OPENROUTER \<equiv> ''openrouter''"
abbreviation USE_DEEPSEEK :: string where "USE_DEEPSEEK \<equiv> ''deepseek''"
abbreviation USE_GLM :: string where "USE_GLM \<equiv> ''glm''"

record content_generator_config =
  cgc_model :: string
  cgc_apiKey :: "string option"
  cgc_vertexai :: "bool option"
  cgc_authType :: "string option"
  cgc_proxy :: "string option"
  cgc_baseUrl :: "string option"
  cgc_provider :: "string option"

text \<open>The two methods of the runtime \<^verbatim>\<open>Config\<close> the resolver calls.\<close>

record config =
  getModel :: string
  getProxy :: "string option"

text \<open>\<^verbatim>\<open>process.env.NAME || undefined\<close>: a variable set to the empty string counts as unset.\<close>

definition or_undefined :: "(string \<rightharpoonup> string) \<Rightarrow> string \<Rightarrow> string option" where
  "or_undefined env name =
     (case env name of None \<Rightarrow> None | Some v \<Rightarrow> if v \<noteq> [] then Some v else None)"

text \<open>\<^verbatim>\<open>a || b\<close> on values that are a string or \<^verbatim>\<open>undefined\<close>.\<close>

definition or_else :: "string option \<Rightarrow> string option \<Rightarrow> string option" where
  "or_else a b = (case a of None \<Rightarrow> b | Some v \<Rightarrow> Some v)"

definition or_default :: "string option \<Rightarrow> string \<Rightarrow> string" where
  "or_default a d = (case a of None \<Rightarrow> d | Some v \<Rightarrow> v)"

text \<open>
  \<^verbatim>\<open>DEFAULT_GEMINI_MODEL\<close> comes from another module and is a parameter. The call of
  \<^verbatim>\<open>getEffectiveModel\<close> is made for its effect and its result dropped; the second
  component of the result lists the calls made, each with its arguments.
\<close>

definition createContentGeneratorConfig ::
  "(string \<rightharpoonup> string) \<Rightarrow> string \<Rightarrow> config \<Rightarrow> string option
     \<Rightarrow> content_generator_config \<times> (string \<times> string \<times> string option) list" where
  "createContentGeneratorConfig env DEFAULT_GEMINI_MODEL config authType =
     (let geminiApiKey = or_undefined env ''GEMINI_API_KEY'';
          googleApiKey = or_undefined env ''GOOGLE_API_KEY'';
          googleCloudProject = or_undefined env ''GOOGLE_CLOUD_PROJECT'';
          googleCloudLocation = or_undefined env ''GOOGLE_CLOUD_LOCATION'';
          openaiApiKey = or_undefined env ''OPENAI_API_KEY'';
          openrouterApiKey = or_undefined env ''OPENROUTER_API_KEY'';
          deepseekApiKey = or_undefined env ''DEEPSEEK_API_KEY'';
          glmApiKey = or_else (or_undefined env ''GLM_API_KEY'')
                              (or_undefined env ''ZHIPUAI_API_KEY'');
          openaiBaseUrl = or_default (or_undefined env ''OPENAI_BASE_URL'')
                                     ''https://api.openai.com/v1'';
          openrouterBaseUrl = or_default (or_undefined env ''OPENROUTER_BASE_URL'')
                                         ''https://openrouter.ai/api/v1'';
          deepseekBaseUrl = or_default (or_undefined env ''DEEPSEEK_BASE_URL'')
                                       ''https://api.deepseek.com'';
          glmBaseUrl = or_default (or_undefined env ''GLM_BASE_URL'')
                                  ''https://open.bigmodel.cn/api/paas/v4'';
          effectiveModel = (if getModel config \<noteq> [] then getModel config
                            else DEFAULT_GEMINI_MODEL);
          contentGeneratorConfig =
            \<lparr> cgc_model = effectiveModel, cgc_apiKey = None, cgc_vertexai = None,
              cgc_authType = authType, cgc_proxy = getProxy config,
              cgc_baseUrl = None, cgc_provider = None \<rparr>
      in if authType = Some LOGIN_WITH_GOOGLE \<or> authType = Some CLOUD_SHELL
         then (contentGeneratorConfig, [])
         else if authType = Some USE_GEMINI \<and> geminiApiKey \<noteq> None
         then (contentGeneratorConfig\<lparr>cgc_apiKey := geminiApiKey, cgc_vertexai := Some False\<rparr>,
               [(or_default geminiApiKey [], effectiveModel, getProxy config)])
         else if authType = Some USE_VERTEX_AI \<and>
                 (googleApiKey \<noteq> None \<or> (googleCloudProject \<noteq> None \<and> googleCloudLocation \<noteq> None))
         then (contentGeneratorConfig\<lparr>cgc_apiKey := googleApiKey, cgc_vertexai := Some True\<rparr>, [])
         else if authType = Some USE_OPENAI \<and> openaiApiKey \<noteq> None
         then (contentGeneratorConfig\<lparr>cgc_apiKey := openaiApiKey,
                 cgc_baseUrl := Some openaiBaseUrl, cgc_provider := Some ''openai''\<rparr>, [])
         else if authType = Some USE_OPENROUTER \<and> openrouterApiKey \<noteq> None
         then (contentGeneratorConfig\<lparr>cgc_apiKey := openrouterApiKey,
                 cgc_baseUrl := Some openrouterBaseUrl, cgc_provider := Some ''openrouter''\<rparr>, [])
         else if authType = Some USE_DEEPSEEK \<and> deepseekApiKey \<noteq> None
         then (contentGeneratorConfig\<lparr>cgc_apiKey := deepseekApiKey,
                 cgc_baseUrl := Some deepseekBaseUrl, cgc_provider := Some ''deepseek''\<rparr>, [])
         else if authType = Some USE_GLM \<and> glmApiKey \<noteq> None
         then (contentGeneratorConfig\<lparr>cgc_apiKey := glmApiKey,
                 cgc_baseUrl := Some glmBaseUrl, cgc_provider := Some ''glm''\<rparr>, [])
         else (contentGeneratorConfig, []))"

section \<open>The factory\<close>

record process =
  proc_env :: "string \<rightharpoonup> string"
  proc_version :: string
  platform :: string
  arch :: string

record http_options =
  ho_headers :: "(string \<times> string) list"

record google_genai_options =
  gg_apiKey :: "string option"
  gg_vertexai :: "bool option"
  gg_httpOptions :: http_options

text \<open>
  The two first-party backends are built by code of other modules, which may throw:
  \<^verbatim>\<open>createCodeAssistContentGenerator\<close> and the \<^verbatim>\<open>GoogleGenAI\<close> constructor are
  parameters. \<^verbatim>\<open>LoggingContentGenerator\<close> keeps the generator it wraps and the runtime
  configuration.
\<close>

datatype ('ca, 'gm) backend =
    CodeAssist 'ca
  | GoogleGenAIModels 'gm
  | OpenAICompatible adapter

datatype ('ca, 'gm, 'g) content_generator =
  LoggingContentGenerator "('ca, 'gm) backend" 'g

definition createContentGenerator ::
  "process
     \<Rightarrow> (http_options \<Rightarrow> string option \<Rightarrow> 'g \<Rightarrow> string option \<Rightarrow> error + 'ca)
     \<Rightarrow> (google_genai_options \<Rightarrow> error + 'gm)
     \<Rightarrow> content_generator_config \<Rightarrow> 'g \<Rightarrow> string option
     \<Rightarrow> error + ('ca, 'gm, 'g) content_generator" where
  "createContentGenerator proc createCodeAssistContentGenerator newGoogleGenAI config gcConfig
       sessionId =
     (let version = or_default (or_undefined (proc_env proc) ''CLI_VERSION'') (proc_version proc);
          httpOptions =
            \<lparr> ho_headers = [(''User-Agent'', ''GeminiCLI/'' @ version @ '' ('' @ platform proc
                                               @ ''; '' @ arch proc @ '')'')] \<rparr>
      in if cgc_authType config = Some LOGIN_WITH_GOOGLE \<or> cgc_authType config = Some CLOUD_SHELL
         then (case createCodeAssistContentGenerator httpOptions (cgc_authType config) gcConfig
                      sessionId of
                 Inl e \<Rightarrow> Inl e
               | Inr ca \<Rightarrow> Inr (LoggingContentGenerator (CodeAssist ca) gcConfig))
         else if cgc_authType config = Some USE_GEMINI \<or> cgc_authType config = Some USE_VERTEX_AI
         then (case newGoogleGenAI
                      \<lparr> gg_apiKey = (if cgc_apiKey config = Some [] then None
                                      else cgc_apiKey config),
                        gg_vertexai = cgc_vertexai config,
                        gg_httpOptions = httpOptions \<rparr> of
                 Inl e \<Rightarrow> Inl e
               | Inr models \<Rightarrow> Inr (LoggingContentGenerator (GoogleGenAIModels models) gcConfig))
         else if cgc_authType config = Some USE_OPENAI \<or>
                 cgc_authType config = Some USE_OPENROUTER \<or>
                 cgc_authType config = Some USE_DEEPSEEK \<or>
                 cgc_authType config = Some USE_GLM
         then (case new_OpenAICompatibleContentGenerator
                      \<lparr> opt_baseUrl = cgc_baseUrl config,
                        opt_apiKey = cgc_apiKey config,
                        opt_model = cgc_model config,
                        opt_httpHeaders = Some (ho_headers httpOptions) \<rparr> of
                 Inl e \<Rightarrow> Inl e
               | Inr provider \<Rightarrow> Inr (LoggingContentGenerator (OpenAICompatible provider) gcConfig))
         else Inl (Error (''Error creating contentGenerator: Unsupported authType: ''
                          @ interpolate (cgc_authType config))))"

section \<open>More concrete inputs\<close>

definition example_roles :: "part content list" where
  "example_roles =
     [\<lparr> c_role = Some ''model'', c_parts = Some [] \<rparr>,
      \<lparr> c_role = Some ''user'', c_parts = Some [] \<rparr>,
      \<lparr> c_role = Some ''system'', c_parts = None \<rparr>,
      \<lparr> c_role = None, c_parts = None \<rparr>]"

definition example_config :: config where
  "example_config = \<lparr> getModel = ''gpt-4o'', getProxy = None \<rparr>"

definition example_process :: process where
  "example_process =
     \<lparr> proc_env = Map.empty, proc_version = ''v20.11.0'', platform = ''linux'', arch = ''x64'' \<rparr>"

text \<open>An environment where every variable but \<^verbatim>\<open>OPENAI_API_KEY\<close> holds a key.\<close>

definition all_but_OPENAI_API_KEY :: "string \<rightharpoonup> string" where
  "all_but_OPENAI_API_KEY name = (if name = ''OPENAI_API_KEY'' then None else Some ''k'')"

text \<open>Collaborators that build their backend without fail, for the concrete cases.\<close>

definition code_assist_stub :: "http_options \<Rightarrow> string option \<Rightarrow> unit \<Rightarrow> string option \<Rightarrow> error + unit" where
  "code_assist_stub h a g s = Inr ()"

definition google_genai_stub :: "google_genai_options \<Rightarrow> error + unit" where
  "google_genai_stub opts = Inr ()"

definition example_env :: "string \<rightharpoonup> string" where
  "example_env = [''GEMINI_API_KEY'' \<mapsto> ''g-key'', ''OPENAI_BASE_URL'' \<mapsto> ''http://localhost:8080/v1'']"

definition zhipu_only_env :: "string \<rightharpoonup> string" where
  "zhipu_only_env = [''ZHIPUAI_API_KEY'' \<mapsto> ''zk'']"

definition glm_only_env :: "string \<rightharpoonup> string" where
  "glm_only_env = [''GLM_API_KEY'' \<mapsto> ''gk'']"

text \<open>What the resolver returns for the openai selector when no key is set.\<close>

definition keyless_openai_config :: content_generator_config where
  "keyless_openai_config =
     \<lparr> cgc_model = ''gpt-4o'', cgc_apiKey = None, cgc_vertexai = None,
       cgc_authType = Some USE_OPENAI, cgc_proxy = None, cgc_baseUrl = None,
       cgc_provider = None \<rparr>"

section \<open>Properties of the adapter\<close>

lemma generateContent_example_unauthorized:
  "generateContent unauthorized_network contents_as_given example_adapter example_request
     ''p1'' [] =
     (Inl (Error ''OpenAI-compatible error 401: invalid key''), [example_http_request])"
  by (simp add: generateContent_def fetch_def request_body_def unauthorized_network_def
      example_adapter_def example_request_def example_http_request_def ok_def
      convertContentsToOpenAIMessages_def partsToText_def part_to_text_def text_part_def
      contents_as_given_def convertTools_def show_nat.simps digit_char_def)

lemma generateContent_example_answering:
  "generateContent answering_network contents_as_given example_adapter example_request
     ''p1'' [] =
     (Inr \<lparr> modelVersion = ''gpt-default'',
            candidates = [\<lparr> cand_content = \<lparr> c_role = Some ''model'',
                                              c_parts = Some [\<lparr> rp_text = JStr ''hello'' \<rparr>] \<rparr>,
                            cand_index = 0 \<rparr>],
            usageMetadata = \<lparr> promptTokenCount = JUndefined, candidatesTokenCount = JUndefined,
                              totalTokenCount = JUndefined \<rparr> \<rparr>,
      [example_http_request])"
  by (simp add: generateContent_def fetch_def request_body_def answering_network_def
      example_adapter_def example_request_def example_http_request_def ok_def
      convertContentsToOpenAIMessages_def partsToText_def part_to_text_def text_part_def
      contents_as_given_def convertTools_def fromOpenAIChatCompletion_def opt_get_def
      nullish_or_def)

lemma show_nat_401: "show_nat 401 = ''401''"
  by (simp add: show_nat.simps digit_char_def)

lemma join_newline_lines:
  "join newline ls = butlast (concat (map (\<lambda>l. l @ newline) ls))"
proof (induction ls)
  case Nil
  show ?case by simp
next
  case (Cons x xs)
  show ?case
  proof (cases xs)
    case Nil
    then show ?thesis by (simp add: newline_def)
  next
    case inner: (Cons y ys)
    let ?c = "concat (map (\<lambda>l. l @ newline) xs)"
    have ne: "newline @ ?c \<noteq> []"
      by (simp add: newline_def)
    have ne': "?c \<noteq> []"
      using inner by (simp add: newline_def)
    have "join newline (x # xs) = x @ newline @ join newline xs"
      using inner by simp
    also have "\<dots> = x @ newline @ butlast ?c"
      using Cons.IH by simp
    also have "\<dots> = x @ butlast (newline @ ?c)"
      using ne' by (simp only: butlast_append if_False)
    also have "\<dots> = butlast (x @ newline @ ?c)"
      using ne by (simp only: butlast_append if_False)
    also have "\<dots> = butlast (concat (map (\<lambda>l. l @ newline) (x # xs)))"
      by simp
    finally show ?thesis .
  qed
qed

lemma nonempty_texts_are_spec_lines:
  "filter (\<lambda>t. t \<noteq> []) (map part_to_text ps) = spec_text_lines ps"
  by (induction ps)
     (auto simp: part_to_text_def extractable_text_def split: part.splits option.splits)

lemma partsToText_spec: "partsToText ps = spec_message_text ps"
  by (simp add: partsToText_def spec_message_text_def join_newline_lines
      nonempty_texts_are_spec_lines)

lemma generateContent_sends_once:
  "snd (generateContent net toContents self req uid sent) =
     sent @ [\<lparr> url = baseUrl self @ ''/chat/completions'', http_method = ''POST'',
               headers = adapter_headers self, body = request_body toContents self req \<rparr>]"
  by (simp add: generateContent_def fetch_def Let_def split: fetch_outcome.splits option.splits)

lemma generateContent_ok_returns:
  assumes "net sent \<lparr> url = baseUrl self @ ''/chat/completions'', http_method = ''POST'',
                      headers = adapter_headers self,
                      body = request_body toContents self req \<rparr> = Responds resp"
    and "ok resp" and "resp_json resp = Some data"
  shows "fst (generateContent net toContents self req uid sent) =
           Inr (fromOpenAIChatCompletion data (cb_model (request_body toContents self req)))"
  using assms by (simp add: generateContent_def fetch_def Let_def)

text \<open>
  C2. Every content becomes one wire message; a content whose role is "model" gets the
  wire role "assistant", and a content with any other role, or with none, gets "user".
\<close>

theorem role_model_is_assistant_else_user:
  "length (convertContentsToOpenAIMessages cs) = length cs \<and>
   (\<forall>i < length cs.
      (c_role (cs ! i) = Some ''model'' \<longrightarrow>
         wm_role (convertContentsToOpenAIMessages cs ! i) = ''assistant'') \<and>
      (c_role (cs ! i) \<noteq> Some ''model'' \<longrightarrow>
         wm_role (convertContentsToOpenAIMessages cs ! i) = ''user''))"
  by (simp add: convertContentsToOpenAIMessages_def)

theorem role_model_is_assistant_else_user_witness:
  "c_role (example_roles ! 0) = Some ''model'' \<and>
   wm_role (convertContentsToOpenAIMessages example_roles ! 0) = ''assistant'' \<and>
   c_role (example_roles ! 2) \<noteq> Some ''model'' \<and>
   wm_role (convertContentsToOpenAIMessages example_roles ! 2) = ''user'' \<and>
   c_role (example_roles ! 3) \<noteq> Some ''model'' \<and>
   wm_role (convertContentsToOpenAIMessages example_roles ! 3) = ''user''"
proof -
  have len: "length example_roles = 4"
    by (simp add: example_roles_def)
  have r0: "c_role (example_roles ! 0) = Some ''model''"
    and r2: "c_role (example_roles ! 2) \<noteq> Some ''model''"
    and r3: "c_role (example_roles ! 3) \<noteq> Some ''model''"
    by (simp_all add: example_roles_def)
  from role_model_is_assistant_else_user [of example_roles] len r0 r2 r3
  show ?thesis by simp
qed

text \<open>
  C3. The content of a wire message is the text the specification describes: the texts of
  the text-bearing parts in order, one per line, where a part with empty text or with no
  text adds nothing, not even an empty line. The parts "a", "" and "b" give "a", a
  newline and "b"; parts that were never given give the empty string.
\<close>

theorem message_content_is_joined_text:
  "map wm_content (convertContentsToOpenAIMessages cs) =
     map (\<lambda>c. spec_message_text (case c_parts c of None \<Rightarrow> [] | Some ps \<Rightarrow> ps)) cs \<and>
   partsToText (ps @ [PartObject (obj\<lparr>part_text := None\<rparr>)] @ qs) = partsToText (ps @ qs) \<and>
   partsToText (ps @ [PartObject (obj\<lparr>part_text := Some []\<rparr>)] @ qs) = partsToText (ps @ qs) \<and>
   partsToText (ps @ [PartString []] @ qs) = partsToText (ps @ qs) \<and>
   convertContentsToOpenAIMessages
     [\<lparr> c_role = Some ''user'', c_parts = Some [text_part ''a'', text_part [], text_part ''b''] \<rparr>] =
     [\<lparr> wm_role = ''user'', wm_content = ''a'' @ newline @ ''b'' \<rparr>]"
  by (simp add: convertContentsToOpenAIMessages_def partsToText_spec [symmetric]
      partsToText_def part_to_text_def text_part_def)

text \<open>
  C4. When the backend answers with a status outside 200 to 299, generateContent fails
  with an error whose message holds the status code in decimal and the body text as
  read, and exactly one request has been sent: there is no second attempt.
\<close>

theorem non_success_status_fails:
  assumes "net sent \<lparr> url = baseUrl self @ ''/chat/completions'', http_method = ''POST'',
                      headers = adapter_headers self,
                      body = request_body toContents self req \<rparr> = Responds resp"
    and "\<not> ok resp"
  shows "\<exists>e rq. generateContent net toContents self req uid sent = (Inl e, sent @ [rq]) \<and>
           message e = ''OpenAI-compatible error '' @ show_nat (status resp) @ '': ''
                       @ resp_text resp \<and>
           sublist (show_nat (status resp)) (message e) \<and>
           sublist (resp_text resp) (message e)"
proof -
  let ?m = "''OpenAI-compatible error '' @ show_nat (status resp) @ '': '' @ resp_text resp"
  have "sublist (show_nat (status resp)) (''OpenAI-compatible error '' @ show_nat (status resp)
          @ ('': '' @ resp_text resp))"
    by (rule sublist_appendI)
  moreover have "sublist (resp_text resp) ((''OpenAI-compatible error '' @ show_nat (status resp)
          @ '': '') @ resp_text resp)"
    by (rule sublist_append_leftI)
  ultimately have "sublist (show_nat (status resp)) ?m \<and> sublist (resp_text resp) ?m"
    by simp
  with assms show ?thesis
    by (simp add: generateContent_def fetch_def Let_def)
qed

theorem non_success_status_fails_witness:
  "\<not> ok \<lparr> status = 401, resp_text = ''invalid key'', resp_json = None \<rparr> \<and>
   (\<exists>e rq. generateContent unauthorized_network contents_as_given example_adapter
              example_request ''p1'' [] = (Inl e, [] @ [rq]) \<and>
            sublist ''401'' (message e) \<and> sublist ''invalid key'' (message e))"
proof -
  let ?resp = "\<lparr> status = 401, resp_text = ''invalid key'', resp_json = None \<rparr>"
  have h1: "unauthorized_network []
              \<lparr> url = baseUrl example_adapter @ ''/chat/completions'', http_method = ''POST'',
                headers = adapter_headers example_adapter,
                body = request_body contents_as_given example_adapter example_request \<rparr>
            = Responds ?resp"
    by (simp add: unauthorized_network_def)
  have h2: "\<not> ok ?resp"
    by (simp add: ok_def)
  from non_success_status_fails
         [of unauthorized_network "[]" example_adapter contents_as_given example_request
             ?resp "''p1''", OF h1 h2] h2
  show ?thesis
    by (simp add: show_nat_401) blast
qed

text \<open>
  C1, as the code has it. Consuming the stream calls generateContent once. When that call
  returns a response, the stream yields exactly that response as its only element and
  then completes; when that call fails, the stream yields no element and ends with the
  same error. Two calls of \<^verbatim>\<open>next()\<close> always suffice, and the requests sent are those
  of the one generateContent call.
\<close>

theorem stream_is_one_generateContent_call:
  "for_await (Suc (Suc n)) net toContents (generateContentStream self req uid) sent =
     (case generateContent net toContents self req uid sent of
        (Inr r, sent') \<Rightarrow> Some ([r], None, sent')
      | (Inl e, sent') \<Rightarrow> Some ([], Some e, sent'))"
proof (cases "generateContent net toContents self req uid sent")
  case (Pair res sent')
  show ?thesis
  proof (cases res)
    case (Inl e)
    with Pair show ?thesis
      by (simp add: gen_next_def generateContentStream_def)
  next
    case (Inr r)
    with Pair show ?thesis
      by (cases n) (simp_all add: gen_next_def generateContentStream_def)
  qed
qed

text \<open>
  C1 as stated fails where generateContent fails: against a backend that answers 401
  the stream yields no element at all.
\<close>

theorem stream_yields_nothing_on_401:
  "for_await 2 unauthorized_network contents_as_given
     (generateContentStream example_adapter example_request ''p1'') [] =
     Some ([], Some (Error ''OpenAI-compatible error 401: invalid key''), [example_http_request])"
proof -
  have "for_await (Suc (Suc 0)) unauthorized_network contents_as_given
          (generateContentStream example_adapter example_request ''p1'') [] =
        Some ([], Some (Error ''OpenAI-compatible error 401: invalid key''),
              [example_http_request])"
    by (simp add: gen_next_def generateContentStream_def generateContent_example_unauthorized)
  then show ?thesis
    by (simp add: numeral_2_eq_2)
qed

text \<open>
  C5. Translating a reply never fails: the result always has exactly one candidate, at
  index 0, with role "model". A reply object with no \<^verbatim>\<open>choices\<close> field, and one whose
  first choice has the empty string as message content, give that candidate an empty
  parts sequence, and so does any reply value on which reading \<^verbatim>\<open>choices\<close> gives
  \<^verbatim>\<open>undefined\<close>, \<^verbatim>\<open>null\<close> included. A reply with no \<^verbatim>\<open>usage\<close> field leaves all three counts undefined,
  and a usage object leaves undefined each count it lacks and passes on each it has.
\<close>

theorem partial_reply_degrades:
  "length (candidates (fromOpenAIChatCompletion data m)) = 1 \<and>
   cand_index (candidates (fromOpenAIChatCompletion data m) ! 0) = 0 \<and>
   c_role (cand_content (candidates (fromOpenAIChatCompletion data m) ! 0)) = Some ''model'' \<and>
   (opt_get data (Name ''choices'') = JUndefined \<longrightarrow>
      candidates (fromOpenAIChatCompletion data m) =
        [\<lparr> cand_content = \<lparr> c_role = Some ''model'', c_parts = Some [] \<rparr>, cand_index = 0 \<rparr>]) \<and>
   (map_of kvs ''choices'' = None \<longrightarrow>
      candidates (fromOpenAIChatCompletion (JObj kvs) m) =
        [\<lparr> cand_content = \<lparr> c_role = Some ''model'', c_parts = Some [] \<rparr>, cand_index = 0 \<rparr>]) \<and>
   (map_of kvs ''choices'' = Some (JArr (JObj ch # rest)) \<and>
    map_of ch ''message'' = Some (JObj msg) \<and> map_of msg ''content'' = Some (JStr []) \<longrightarrow>
      candidates (fromOpenAIChatCompletion (JObj kvs) m) =
        [\<lparr> cand_content = \<lparr> c_role = Some ''model'', c_parts = Some [] \<rparr>, cand_index = 0 \<rparr>]) \<and>
   (map_of kvs ''usage'' = None \<longrightarrow>
      usageMetadata (fromOpenAIChatCompletion (JObj kvs) m) =
        \<lparr> promptTokenCount = JUndefined, candidatesTokenCount = JUndefined,
          totalTokenCount = JUndefined \<rparr>) \<and>
   (map_of kvs ''usage'' = Some (JObj us) \<longrightarrow>
      usageMetadata (fromOpenAIChatCompletion (JObj kvs) m) =
        \<lparr> promptTokenCount =
            (case map_of us ''prompt_tokens'' of None \<Rightarrow> JUndefined | Some v \<Rightarrow> v),
          candidatesTokenCount =
            (case map_of us ''completion_tokens'' of None \<Rightarrow> JUndefined | Some v \<Rightarrow> v),
          totalTokenCount =
            (case map_of us ''total_tokens'' of None \<Rightarrow> JUndefined | Some v \<Rightarrow> v) \<rparr>)"
  by (simp add: fromOpenAIChatCompletion_def Let_def opt_get_def nullish_or_def)

theorem partial_reply_degrades_witness:
  "map_of [(''id'', JStr ''r1'')] ''choices'' = None \<and>
   map_of [(''id'', JStr ''r1'')] ''usage'' = None \<and>
   fromOpenAIChatCompletion (JObj [(''id'', JStr ''r1'')]) ''gpt-default'' =
     \<lparr> modelVersion = ''gpt-default'',
       candidates = [\<lparr> cand_content = \<lparr> c_role = Some ''model'', c_parts = Some [] \<rparr>,
                       cand_index = 0 \<rparr>],
       usageMetadata = \<lparr> promptTokenCount = JUndefined, candidatesTokenCount = JUndefined,
                         totalTokenCount = JUndefined \<rparr> \<rparr> \<and>
   opt_get JNull (Name ''choices'') = JUndefined \<and>
   candidates (fromOpenAIChatCompletion JNull ''gpt-default'') =
     [\<lparr> cand_content = \<lparr> c_role = Some ''model'', c_parts = Some [] \<rparr>, cand_index = 0 \<rparr>] \<and>
   candidates (fromOpenAIChatCompletion
      (JObj [(''choices'', JArr [JObj [(''message'', JObj [(''content'', JStr [])])]]),
             (''usage'', JObj [(''total_tokens'', JNum 7)])]) ''gpt-default'') =
     [\<lparr> cand_content = \<lparr> c_role = Some ''model'', c_parts = Some [] \<rparr>, cand_index = 0 \<rparr>] \<and>
   usageMetadata (fromOpenAIChatCompletion
      (JObj [(''choices'', JArr [JObj [(''message'', JObj [(''content'', JStr [])])]]),
             (''usage'', JObj [(''total_tokens'', JNum 7)])]) ''gpt-default'') =
     \<lparr> promptTokenCount = JUndefined, candidatesTokenCount = JUndefined,
       totalTokenCount = JNum 7 \<rparr>"
proof -
  let ?k1 = "[(''id'', JStr ''r1'')]"
  let ?msg = "[(''content'', JStr [])]"
  let ?ch = "[(''message'', JObj ?msg)]"
  let ?us = "[(''total_tokens'', JNum 7)]"
  let ?k2 = "[(''choices'', JArr [JObj ?ch]), (''usage'', JObj ?us)]"
  have a: "map_of ?k1 ''choices'' = None" "map_of ?k1 ''usage'' = None"
    by simp_all
  have b: "map_of ?k2 ''choices'' = Some (JArr (JObj ?ch # []))"
    "map_of ?ch ''message'' = Some (JObj ?msg)" "map_of ?msg ''content'' = Some (JStr [])"
    "map_of ?k2 ''usage'' = Some (JObj ?us)"
    by simp_all
  have m: "modelVersion (fromOpenAIChatCompletion (JObj ?k1) ''gpt-default'') = ''gpt-default''"
    by (simp add: fromOpenAIChatCompletion_def Let_def)
  from partial_reply_degrades [of "JObj ?k1" "''gpt-default''" ?k1]
  have c1: "candidates (fromOpenAIChatCompletion (JObj ?k1) ''gpt-default'') =
              [\<lparr> cand_content = \<lparr> c_role = Some ''model'', c_parts = Some [] \<rparr>, cand_index = 0 \<rparr>]"
    and u1: "usageMetadata (fromOpenAIChatCompletion (JObj ?k1) ''gpt-default'') =
              \<lparr> promptTokenCount = JUndefined, candidatesTokenCount = JUndefined,
                totalTokenCount = JUndefined \<rparr>"
    using a by blast+
  from partial_reply_degrades [of "JObj ?k2" "''gpt-default''" ?k2 ?ch "[]" ?msg ?us] b
  have c2: "candidates (fromOpenAIChatCompletion (JObj ?k2) ''gpt-default'') =
              [\<lparr> cand_content = \<lparr> c_role = Some ''model'', c_parts = Some [] \<rparr>, cand_index = 0 \<rparr>]"
    and u2: "usageMetadata (fromOpenAIChatCompletion (JObj ?k2) ''gpt-default'') =
              \<lparr> promptTokenCount = JUndefined, candidatesTokenCount = JUndefined,
                totalTokenCount = JNum 7 \<rparr>"
    by simp_all
  have n: "opt_get JNull (Name ''choices'') = JUndefined"
    by (simp add: opt_get_def)
  from partial_reply_degrades [of JNull "''gpt-default''"] n
  have c0: "candidates (fromOpenAIChatCompletion JNull ''gpt-default'') =
              [\<lparr> cand_content = \<lparr> c_role = Some ''model'', c_parts = Some [] \<rparr>, cand_index = 0 \<rparr>]"
    by blast
  have eq: "fromOpenAIChatCompletion (JObj ?k1) ''gpt-default'' =
              \<lparr> modelVersion = ''gpt-default'',
                candidates = [\<lparr> cand_content = \<lparr> c_role = Some ''model'', c_parts = Some [] \<rparr>,
                                cand_index = 0 \<rparr>],
                usageMetadata = \<lparr> promptTokenCount = JUndefined,
                                  candidatesTokenCount = JUndefined,
                                  totalTokenCount = JUndefined \<rparr> \<rparr>"
    using m c1 u1 by (cases "fromOpenAIChatCompletion (JObj ?k1) ''gpt-default''") simp
  from a eq n c0 c2 u2 show ?thesis
    by simp
qed

text \<open>
  C9. A request whose model is the empty string is served with the adapter's default
  model: the one request sent carries the default model in its body, and a response, when
  one is returned, has the default model as its modelVersion.
\<close>

theorem empty_model_takes_default:
  assumes "req_model req = Some []"
  shows "(\<exists>rq. snd (generateContent net toContents self req uid sent) = sent @ [rq] \<and>
               cb_model (body rq) = defaultModel self) \<and>
         (\<forall>r. fst (generateContent net toContents self req uid sent) = Inr r \<longrightarrow>
               modelVersion r = defaultModel self)"
proof
  show "\<exists>rq. snd (generateContent net toContents self req uid sent) = sent @ [rq] \<and>
             cb_model (body rq) = defaultModel self"
    using assms by (simp add: generateContent_sends_once request_body_def)
next
  have m: "cb_model (request_body toContents self req) = defaultModel self"
    using assms by (simp add: request_body_def)
  show "\<forall>r. fst (generateContent net toContents self req uid sent) = Inr r \<longrightarrow>
            modelVersion r = defaultModel self"
    using m
    by (auto simp: generateContent_def fetch_def Let_def fromOpenAIChatCompletion_def
        split: fetch_outcome.splits option.splits if_splits)
qed

theorem empty_model_takes_default_witness:
  "req_model example_request = Some [] \<and>
   (\<exists>r rq. generateContent answering_network contents_as_given example_adapter example_request
              ''p1'' [] = (Inr r, [rq]) \<and>
            cb_model (body rq) = ''gpt-default'' \<and> modelVersion r = ''gpt-default'')"
proof -
  have h: "req_model example_request = Some []"
    by (simp add: example_request_def)
  obtain r where run: "generateContent answering_network contents_as_given example_adapter
                         example_request ''p1'' [] = (Inr r, [example_http_request])"
    using generateContent_example_answering by blast
  from empty_model_takes_default
         [OF h, of answering_network contents_as_given example_adapter "''p1''" "[]"] run
  have "cb_model (body example_http_request) = defaultModel example_adapter"
    and "modelVersion r = defaultModel example_adapter"
    by simp_all
  with h run show ?thesis
    by (simp add: example_adapter_def)
qed

text \<open>
  C10. For a base URL \<open>U\<close> that does not end in a slash, constructing the adapter
  with \<open>U\<close> and with \<open>U\<close> followed by a slash gives the same adapter, and its
  requests go to \<open>U\<close> followed by \<^verbatim>\<open>/chat/completions\<close>.
\<close>

theorem trailing_slash_same_endpoint:
  assumes "\<not> (U \<noteq> [] \<and> last U = CHR ''/'')"
  shows "\<exists>a. new_OpenAICompatibleContentGenerator (opts\<lparr>opt_baseUrl := Some U\<rparr>) = Inr a \<and>
             new_OpenAICompatibleContentGenerator (opts\<lparr>opt_baseUrl := Some (U @ ''/'')\<rparr>) = Inr a \<and>
             (\<exists>rq. snd (generateContent net toContents a req uid sent) = sent @ [rq] \<and>
                   url rq = U @ ''/chat/completions'')"
proof -
  have s1: "strip_trailing_slash U = U"
    using assms by (auto simp: strip_trailing_slash_def)
  have s2: "strip_trailing_slash (U @ ''/'') = U"
    by (simp add: strip_trailing_slash_def)
  show ?thesis
    by (simp add: new_OpenAICompatibleContentGenerator_def s1 s2 generateContent_sends_once)
qed

theorem trailing_slash_same_endpoint_witness:
  "\<not> (''https://api.deepseek.com'' \<noteq> [] \<and> last ''https://api.deepseek.com'' = CHR ''/'') \<and>
   (\<exists>a. new_OpenAICompatibleContentGenerator
           \<lparr> opt_baseUrl = Some ''https://api.deepseek.com'', opt_apiKey = Some ''sk-test'',
             opt_model = ''deepseek-chat'', opt_httpHeaders = None \<rparr> = Inr a \<and>
         new_OpenAICompatibleContentGenerator
           \<lparr> opt_baseUrl = Some ''https://api.deepseek.com/'', opt_apiKey = Some ''sk-test'',
             opt_model = ''deepseek-chat'', opt_httpHeaders = None \<rparr> = Inr a \<and>
         (\<exists>rq. snd (generateContent answering_network contents_as_given a example_request
                      ''p1'' []) = [rq] \<and>
               url rq = ''https://api.deepseek.com/chat/completions''))"
proof -
  have h: "\<not> (''https://api.deepseek.com'' \<noteq> [] \<and> last ''https://api.deepseek.com'' = CHR ''/'')"
    by simp
  from trailing_slash_same_endpoint
         [OF h, of "\<lparr> opt_baseUrl = None, opt_apiKey = Some ''sk-test'',
                      opt_model = ''deepseek-chat'', opt_httpHeaders = None \<rparr>"
                   answering_network contents_as_given example_request "''p1''" "[]"]
  show ?thesis
    using h by simp
qed

section \<open>Properties of the resolver and the factory\<close>

lemma or_undefined_None: "env name = None \<Longrightarrow> or_undefined env name = None"
  by (simp add: or_undefined_def)

lemma or_undefined_eq_None:
  "(or_undefined env name = None) = (env name = None \<or> env name = Some [])"
  by (auto simp: or_undefined_def split: option.splits)

text \<open>
  C6. With the selector of an OpenAI-wire-compatible backend and that backend's key
  variable unset (both variables, for glm), the resolver returns the generic
  configuration: the effective model, the selector and the proxy, and no key, no base
  URL, no provider, no vertexai flag; it makes no call of getEffectiveModel.
\<close>

theorem missing_key_gives_generic_config:
  assumes "(a = USE_OPENAI \<and> env ''OPENAI_API_KEY'' = None) \<or>
           (a = USE_OPENROUTER \<and> env ''OPENROUTER_API_KEY'' = None) \<or>
           (a = USE_DEEPSEEK \<and> env ''DEEPSEEK_API_KEY'' = None) \<or>
           (a = USE_GLM \<and> env ''GLM_API_KEY'' = None \<and> env ''ZHIPUAI_API_KEY'' = None)"
  shows "createContentGeneratorConfig env dflt config (Some a) =
           (\<lparr> cgc_model = (if getModel config \<noteq> [] then getModel config else dflt),
              cgc_apiKey = None, cgc_vertexai = None, cgc_authType = Some a,
              cgc_proxy = getProxy config, cgc_baseUrl = None, cgc_provider = None \<rparr>, [])"
  using assms
  by (elim disjE conjE)
     (simp_all add: createContentGeneratorConfig_def Let_def or_undefined_None or_else_def)

theorem missing_key_gives_generic_config_witness:
  "example_env ''OPENAI_API_KEY'' = None \<and>
   createContentGeneratorConfig example_env ''gemini-2.5-pro'' example_config (Some USE_OPENAI) =
     (\<lparr> cgc_model = ''gpt-4o'', cgc_apiKey = None, cgc_vertexai = None,
        cgc_authType = Some USE_OPENAI, cgc_proxy = None, cgc_baseUrl = None,
        cgc_provider = None \<rparr>, []) \<and>
   example_env ''GLM_API_KEY'' = None \<and> example_env ''ZHIPUAI_API_KEY'' = None \<and>
   createContentGeneratorConfig example_env ''gemini-2.5-pro'' example_config (Some USE_GLM) =
     (\<lparr> cgc_model = ''gpt-4o'', cgc_apiKey = None, cgc_vertexai = None,
        cgc_authType = Some USE_GLM, cgc_proxy = None, cgc_baseUrl = None,
        cgc_provider = None \<rparr>, [])"
proof -
  have k: "example_env ''OPENAI_API_KEY'' = None" "example_env ''GLM_API_KEY'' = None"
    "example_env ''ZHIPUAI_API_KEY'' = None"
    by (simp_all add: example_env_def)
  from missing_key_gives_generic_config
         [of USE_OPENAI example_env "''gemini-2.5-pro''" example_config] k
  have o: "createContentGeneratorConfig example_env ''gemini-2.5-pro'' example_config
             (Some USE_OPENAI) =
           (\<lparr> cgc_model = ''gpt-4o'', cgc_apiKey = None, cgc_vertexai = None,
              cgc_authType = Some USE_OPENAI, cgc_proxy = None, cgc_baseUrl = None,
              cgc_provider = None \<rparr>, [])"
    by (simp add: example_config_def)
  from missing_key_gives_generic_config
         [of USE_GLM example_env "''gemini-2.5-pro''" example_config] k
  have g: "createContentGeneratorConfig example_env ''gemini-2.5-pro'' example_config
             (Some USE_GLM) =
           (\<lparr> cgc_model = ''gpt-4o'', cgc_apiKey = None, cgc_vertexai = None,
              cgc_authType = Some USE_GLM, cgc_proxy = None, cgc_baseUrl = None,
              cgc_provider = None \<rparr>, [])"
    by (simp add: example_config_def)
  from k o g show ?thesis
    by simp
qed

text \<open>
  C8, as the code has it. Each OpenAI-wire-compatible selector is selectable exactly when
  its key is set to a non-empty value. For glm the key is read from \<^verbatim>\<open>GLM_API_KEY\<close> or,
  failing that, from \<^verbatim>\<open>ZHIPUAI_API_KEY\<close>, so either name alone suffices; openai,
  openrouter and deepseek each read one name only.
\<close>

theorem credential_variable_names:
  "(cgc_provider (fst (createContentGeneratorConfig env dflt config (Some USE_GLM))) = Some ''glm'')
     = (\<exists>v. v \<noteq> [] \<and> (env ''GLM_API_KEY'' = Some v \<or> env ''ZHIPUAI_API_KEY'' = Some v)) \<and>
   (cgc_provider (fst (createContentGeneratorConfig env dflt config (Some USE_OPENAI))) = Some ''openai'')
     = (\<exists>v. v \<noteq> [] \<and> env ''OPENAI_API_KEY'' = Some v) \<and>
   (cgc_provider (fst (createContentGeneratorConfig env dflt config (Some USE_OPENROUTER)))
      = Some ''openrouter'')
     = (\<exists>v. v \<noteq> [] \<and> env ''OPENROUTER_API_KEY'' = Some v) \<and>
   (cgc_provider (fst (createContentGeneratorConfig env dflt config (Some USE_DEEPSEEK)))
      = Some ''deepseek'')
     = (\<exists>v. v \<noteq> [] \<and> env ''DEEPSEEK_API_KEY'' = Some v) \<and>
   (\<forall>a \<in> {USE_OPENAI, USE_OPENROUTER, USE_DEEPSEEK, USE_GLM}.
      cgc_provider (fst (createContentGeneratorConfig env dflt config (Some a))) = Some a \<or>
      cgc_provider (fst (createContentGeneratorConfig env dflt config (Some a))) = None)"
proof -
  have u: "\<And>name. (or_undefined env name \<noteq> None) = (\<exists>v. v \<noteq> [] \<and> env name = Some v)"
    by (auto simp: or_undefined_def split: option.splits)
  have e: "\<And>x y. (or_else x y \<noteq> None) = (x \<noteq> None \<or> y \<noteq> None)"
    by (auto simp: or_else_def split: option.splits)
  have glm: "(cgc_provider (fst (createContentGeneratorConfig env dflt config (Some USE_GLM)))
               = Some ''glm'')
             = (or_else (or_undefined env ''GLM_API_KEY'') (or_undefined env ''ZHIPUAI_API_KEY'')
                \<noteq> None)"
    by (simp add: createContentGeneratorConfig_def Let_def)
  have openai: "(cgc_provider (fst (createContentGeneratorConfig env dflt config (Some USE_OPENAI)))
                  = Some ''openai'')
                = (or_undefined env ''OPENAI_API_KEY'' \<noteq> None)"
    by (simp add: createContentGeneratorConfig_def Let_def)
  have openrouter: "(cgc_provider (fst (createContentGeneratorConfig env dflt config
                       (Some USE_OPENROUTER))) = Some ''openrouter'')
                    = (or_undefined env ''OPENROUTER_API_KEY'' \<noteq> None)"
    by (simp add: createContentGeneratorConfig_def Let_def)
  have deepseek: "(cgc_provider (fst (createContentGeneratorConfig env dflt config
                     (Some USE_DEEPSEEK))) = Some ''deepseek'')
                  = (or_undefined env ''DEEPSEEK_API_KEY'' \<noteq> None)"
    by (simp add: createContentGeneratorConfig_def Let_def)
  have other: "\<forall>a \<in> {USE_OPENAI, USE_OPENROUTER, USE_DEEPSEEK, USE_GLM}.
      cgc_provider (fst (createContentGeneratorConfig env dflt config (Some a))) = Some a \<or>
      cgc_provider (fst (createContentGeneratorConfig env dflt config (Some a))) = None"
    by (simp add: createContentGeneratorConfig_def Let_def)
  from glm openai openrouter deepseek other show ?thesis
    unfolding u e by blast
qed

theorem credential_variable_names_witness:
  "cgc_provider (fst (createContentGeneratorConfig zhipu_only_env ''gemini-2.5-pro'' example_config
                        (Some USE_GLM))) = Some ''glm'' \<and>
   cgc_provider (fst (createContentGeneratorConfig glm_only_env ''gemini-2.5-pro'' example_config
                        (Some USE_GLM))) = Some ''glm'' \<and>
   cgc_provider (fst (createContentGeneratorConfig zhipu_only_env ''gemini-2.5-pro'' example_config
                        (Some USE_OPENAI))) \<noteq> Some ''openai''"
proof -
  have z: "\<exists>v. v \<noteq> [] \<and> (zhipu_only_env ''GLM_API_KEY'' = Some v \<or>
                           zhipu_only_env ''ZHIPUAI_API_KEY'' = Some v)"
    by (simp add: zhipu_only_env_def)
  have g: "\<exists>v. v \<noteq> [] \<and> (glm_only_env ''GLM_API_KEY'' = Some v \<or>
                           glm_only_env ''ZHIPUAI_API_KEY'' = Some v)"
    by (simp add: glm_only_env_def)
  have n: "\<not> (\<exists>v. v \<noteq> [] \<and> zhipu_only_env ''OPENAI_API_KEY'' = Some v)"
    by (simp add: zhipu_only_env_def)
  from credential_variable_names [of zhipu_only_env "''gemini-2.5-pro''" example_config]
       credential_variable_names [of glm_only_env "''gemini-2.5-pro''" example_config]
       z g n
  show ?thesis
    by blast
qed

text \<open>
  C8 as stated fails for openai: with every variable but \<^verbatim>\<open>OPENAI_API_KEY\<close> holding a
  key, the openai selector is still not selectable, so no second name is accepted.
\<close>

theorem openai_accepts_no_alias:
  "createContentGeneratorConfig all_but_OPENAI_API_KEY ''gemini-2.5-pro'' example_config
     (Some USE_OPENAI) =
     (\<lparr> cgc_model = ''gpt-4o'', cgc_apiKey = None, cgc_vertexai = None,
        cgc_authType = Some USE_OPENAI, cgc_proxy = None, cgc_baseUrl = None,
        cgc_provider = None \<rparr>, [])"
  by (simp add: createContentGeneratorConfig_def Let_def or_undefined_def or_else_def
      or_default_def all_but_OPENAI_API_KEY_def example_config_def)

text \<open>What the factory does on its branches.\<close>

lemma createContentGenerator_wraps:
  assumes "createContentGenerator proc mkCodeAssist mkGoogle config gcConfig sessionId = Inr g"
  shows "\<exists>b. g = LoggingContentGenerator b gcConfig"
  using assms
  by (auto simp: createContentGenerator_def Let_def split: if_splits sum.splits)

lemma createContentGenerator_unsupported:
  assumes "cgc_authType config \<notin> Some ` {LOGIN_WITH_GOOGLE, CLOUD_SHELL, USE_GEMINI, USE_VERTEX_AI,
             USE_OPENAI, USE_OPENROUTER, USE_DEEPSEEK, USE_GLM}"
  shows "createContentGenerator proc mkCodeAssist mkGoogle config gcConfig sessionId =
           Inl (Error (''Error creating contentGenerator: Unsupported authType: ''
                       @ interpolate (cgc_authType config)))"
  using assms
  by (simp add: createContentGenerator_def Let_def)

lemma createContentGenerator_openai_with_baseUrl:
  assumes "cgc_authType config \<in> Some ` {USE_OPENAI, USE_OPENROUTER, USE_DEEPSEEK, USE_GLM}"
    and "cgc_baseUrl config = Some u"
  shows "\<exists>p. createContentGenerator proc mkCodeAssist mkGoogle config gcConfig sessionId =
               Inr (LoggingContentGenerator (OpenAICompatible p) gcConfig) \<and>
             baseUrl p = strip_trailing_slash u \<and> defaultModel p = cgc_model config"
  using assms
  by (auto simp: createContentGenerator_def Let_def new_OpenAICompatibleContentGenerator_def)

lemma createContentGenerator_openai_without_baseUrl:
  assumes "cgc_authType config \<in> Some ` {USE_OPENAI, USE_OPENROUTER, USE_DEEPSEEK, USE_GLM}"
    and "cgc_baseUrl config = None"
  shows "createContentGenerator proc mkCodeAssist mkGoogle config gcConfig sessionId =
           Inl (TypeError ''Cannot read properties of undefined (reading 'replace')'')"
  using assms
  by (auto simp: createContentGenerator_def Let_def new_OpenAICompatibleContentGenerator_def)

text \<open>The factory can be handed a configuration without base URL: the resolver returns one.\<close>

lemma resolver_returns_keyless_openai_config:
  "createContentGeneratorConfig Map.empty ''gemini-2.5-pro'' example_config (Some USE_OPENAI) =
     (keyless_openai_config, [])"
  by (simp add: createContentGeneratorConfig_def Let_def or_undefined_def or_else_def
      or_default_def example_config_def keyless_openai_config_def)

text \<open>
  C7 at the configuration the resolver returns for the openai selector when no key is
  set: the selector is a known one, yet the factory returns no generator, wrapped or
  not, and does not report an unsupported selector either. The adapter's constructor
  reads \<^verbatim>\<open>opts.baseUrl.replace\<close> on the missing base URL, which the call site passed as
  \<^verbatim>\<open>config.baseUrl!\<close>, and the TypeError leaves the factory.
\<close>

theorem factory_throws_TypeError_for_keyless_openai:
  "createContentGenerator example_process code_assist_stub google_genai_stub
     keyless_openai_config () None =
     Inl (TypeError ''Cannot read properties of undefined (reading 'replace')'')"
  by (simp add: keyless_openai_config_def createContentGenerator_def
      new_OpenAICompatibleContentGenerator_def)

end
